theory Spec2Isabelle
  imports Complex_Main "HOL-Library.Word"
begin

unbundle bit_operations_syntax

section \<open>Python floats: IEEE 754 binary64 with round-to-nearest-even\<close>

text \<open>
  The verifier computes with Python \<^verbatim>\<open>float\<close>s. A float is modelled by its exact value:
  a finite double is the rational number it denotes (\<open>Fin 0\<close> is \<open>+0.0\<close>), and the
  negative zero, the two infinities and NaN are constructors of their own. Every
  arithmetic operation computes the exact rational result and rounds it to the nearest
  double, ties to even, as the hardware does.
\<close>

datatype double = Fin rat | NegZero | PInf | NInf | NaN

text \<open>The number of binary digits of a positive integer.\<close>

function bitlen :: "int \<Rightarrow> int" where
  "bitlen n = (if n \<le> 0 then 0 else 1 + bitlen (n div 2))"
  by pat_completeness auto
termination
  by (relation "measure nat") auto

declare bitlen.simps [simp del]

definition pow2 :: "int \<Rightarrow> rat" where
  "pow2 e = (if 0 \<le> e then 2 ^ nat e else 1 / 2 ^ nat (- e))"

text \<open>\<open>ilog2 q\<close> is the exponent \<open>e\<close> with \<open>2^e \<le> q < 2^(e+1)\<close>, for \<open>q > 0\<close>.\<close>

definition ilog2 :: "rat \<Rightarrow> int" where
  "ilog2 q = (if 1 \<le> q then bitlen \<lfloor>q\<rfloor> - 1 else - bitlen (\<lceil>1 / q\<rceil> - 1))"

definition round_half_even :: "rat \<Rightarrow> int" where
  "round_half_even r =
     (let f = \<lfloor>r\<rfloor>; d = r - of_int f
      in if d < 1 / 2 then f
         else if 1 / 2 < d then f + 1
         else if even f then f else f + 1)"

text \<open>
  Rounding a positive rational to binary64: 53 significant bits, the exponent of the
  least bit no smaller than \<open>-1074\<close> (subnormals), \<open>None\<close> when the rounded value
  reaches \<open>2^1024\<close> (overflow).
\<close>

definition round_pos :: "rat \<Rightarrow> rat option" where
  "round_pos q =
     (let e = max (ilog2 q) (- 1022);
          u = pow2 (e - 52);
          r = of_int (round_half_even (q / u)) * u
      in if r < pow2 1024 then Some r else None)"

definition round_double :: "rat \<Rightarrow> double" where
  "round_double q =
     (if q = 0 then Fin 0
      else if 0 < q then (case round_pos q of None \<Rightarrow> PInf | Some r \<Rightarrow> Fin r)
      else (case round_pos (- q) of None \<Rightarrow> NInf
            | Some r \<Rightarrow> if r = 0 then NegZero else Fin (- r)))"

text \<open>The sign bit, and the result of an operation whose exact value is zero.\<close>

fun is_neg :: "double \<Rightarrow> bool" where
  "is_neg (Fin q) = (q < 0)"
| "is_neg NegZero = True"
| "is_neg PInf = False"
| "is_neg NInf = True"
| "is_neg NaN = False"

definition signed_zero :: "bool \<Rightarrow> double" where
  "signed_zero neg = (if neg then NegZero else Fin 0)"

definition signed_inf :: "bool \<Rightarrow> double" where
  "signed_inf neg = (if neg then NInf else PInf)"

fun fval :: "double \<Rightarrow> rat" where
  "fval (Fin q) = q"
| "fval _ = 0"

fun is_finite :: "double \<Rightarrow> bool" where
  "is_finite (Fin q) = True"
| "is_finite NegZero = True"
| "is_finite _ = False"

fun fneg :: "double \<Rightarrow> double" where
  "fneg (Fin q) = (if q = 0 then NegZero else Fin (- q))"
| "fneg NegZero = Fin 0"
| "fneg PInf = NInf"
| "fneg NInf = PInf"
| "fneg NaN = NaN"

fun fabs :: "double \<Rightarrow> double" where
  "fabs (Fin q) = Fin \<bar>q\<bar>"
| "fabs NegZero = Fin 0"
| "fabs PInf = PInf"
| "fabs NInf = PInf"
| "fabs NaN = NaN"

definition fadd :: "double \<Rightarrow> double \<Rightarrow> double" where
  "fadd x y =
     (if x = NaN \<or> y = NaN then NaN
      else if \<not> is_finite x \<and> \<not> is_finite y then (if x = y then x else NaN)
      else if \<not> is_finite x then x
      else if \<not> is_finite y then y
      else if fval x + fval y = 0 then signed_zero (is_neg x \<and> is_neg y)
      else round_double (fval x + fval y))"

definition fsub :: "double \<Rightarrow> double \<Rightarrow> double" where
  "fsub x y = fadd x (fneg y)"

definition fmul :: "double \<Rightarrow> double \<Rightarrow> double" where
  "fmul x y =
     (if x = NaN \<or> y = NaN then NaN
      else if \<not> is_finite x \<or> \<not> is_finite y then
        (if (is_finite x \<and> fval x = 0) \<or> (is_finite y \<and> fval y = 0) then NaN
         else signed_inf (is_neg x \<noteq> is_neg y))
      else if fval x * fval y = 0 then signed_zero (is_neg x \<noteq> is_neg y)
      else round_double (fval x * fval y))"

text \<open>Division for a divisor that is not zero (Python raises on a zero divisor before
  the hardware divides; see \<open>py_truediv_float\<close>).\<close>

definition fdiv :: "double \<Rightarrow> double \<Rightarrow> double" where
  "fdiv x y =
     (if x = NaN \<or> y = NaN then NaN
      else if \<not> is_finite x then
        (if \<not> is_finite y then NaN else signed_inf (is_neg x \<noteq> is_neg y))
      else if \<not> is_finite y \<or> fval x = 0 then signed_zero (is_neg x \<noteq> is_neg y)
      else round_double (fval x / fval y))"

text \<open>Comparison: NaN compares false with everything, the two zeros are equal.\<close>

fun flt :: "double \<Rightarrow> double \<Rightarrow> bool" where
  "flt NaN _ = False"
| "flt _ NaN = False"
| "flt PInf _ = False"
| "flt _ PInf = True"
| "flt _ NInf = False"
| "flt NInf _ = True"
| "flt x y = (fval x < fval y)"

definition fgt :: "double \<Rightarrow> double \<Rightarrow> bool" where
  "fgt x y = flt y x"

text \<open>Conversion of a Python \<^verbatim>\<open>int\<close> to a float: correctly rounded; \<open>None\<close> when the
  integer is too large (Python raises \<^verbatim>\<open>OverflowError\<close>).\<close>

definition double_of_int :: "int \<Rightarrow> double option" where
  "double_of_int i =
     (case round_double (of_int i) of PInf \<Rightarrow> None | NInf \<Rightarrow> None | d \<Rightarrow> Some d)"

section \<open>Formatting numbers: \<^verbatim>\<open>str(int)\<close> and \<^verbatim>\<open>repr(float)\<close>\<close>

definition digit_char :: "int \<Rightarrow> char" where
  "digit_char d = char_of (48 + d)"

function str_nonneg :: "int \<Rightarrow> string" where
  "str_nonneg n = (if n < 10 then [digit_char n] else str_nonneg (n div 10) @ [digit_char (n mod 10)])"
  by pat_completeness auto
termination
  by (relation "measure nat") auto

declare str_nonneg.simps [simp del]

definition str_int :: "int \<Rightarrow> string" where
  "str_int i = (if i < 0 then CHR ''-'' # str_nonneg (- i) else str_nonneg i)"

text \<open>The number of decimal digits of a positive integer, and the decimal exponent
  \<open>k\<close> of a positive rational: \<open>10^k \<le> q < 10^(k+1)\<close>.\<close>

function declen :: "int \<Rightarrow> int" where
  "declen n = (if n \<le> 0 then 0 else 1 + declen (n div 10))"
  by pat_completeness auto
termination
  by (relation "measure nat") auto

declare declen.simps [simp del]

definition pow10 :: "int \<Rightarrow> rat" where
  "pow10 e = (if 0 \<le> e then 10 ^ nat e else 1 / 10 ^ nat (- e))"

definition ilog10 :: "rat \<Rightarrow> int" where
  "ilog10 q = (if 1 \<le> q then declen \<lfloor>q\<rfloor> - 1 else - declen (\<lceil>1 / q\<rceil> - 1))"

text \<open>
  \<^verbatim>\<open>repr\<close> of a float is the shortest decimal string that reads back as the same
  double, and among the strings of that length the one nearest to the double's value.
  For \<open>n = 1, 2, \<dots>, 17\<close> significant digits the two \<open>n\<close>-digit decimals around
  \<open>q\<close> are tried; seventeen digits always identify a double.
\<close>

fun shortest_decimal :: "rat \<Rightarrow> int \<Rightarrow> nat list \<Rightarrow> rat" where
  "shortest_decimal q k [] = q"
| "shortest_decimal q k (n # ns) =
     (let s = pow10 (k - int n + 1);
          lo = of_int \<lfloor>q / s\<rfloor> * s;
          hi = lo + s;
          ok_lo = (round_pos lo = Some q);
          ok_hi = (round_pos hi = Some q)
      in if ok_lo \<and> ok_hi then (if q - lo \<le> hi - q then lo else hi)
         else if ok_lo then lo
         else if ok_hi then hi
         else shortest_decimal q k ns)"

fun strip_zeros :: "string \<Rightarrow> string" where
  "strip_zeros [] = []"
| "strip_zeros (c # cs) =
     (let r = strip_zeros cs in if r = [] \<and> c = CHR ''0'' then [] else c # r)"

text \<open>The digits \<open>d\<^sub>1 d\<^sub>2 \<dots>\<close> and the position of the decimal point of a positive
  decimal \<open>c = 0.d\<^sub>1 d\<^sub>2 \<dots> \<times> 10^decpt\<close> of at most 17 significant digits.\<close>

definition decimal_digits :: "rat \<Rightarrow> string \<times> int" where
  "decimal_digits c =
     (let k = ilog10 c in (strip_zeros (str_nonneg \<lfloor>c / pow10 (k - 16)\<rfloor>), k + 1))"

definition exponent_str :: "int \<Rightarrow> string" where
  "exponent_str e =
     (let a = str_nonneg \<bar>e\<bar>
      in (if e < 0 then ''e-'' else ''e+'') @ (if length a < 2 then CHR ''0'' # a else a))"

definition format_digits :: "string \<Rightarrow> int \<Rightarrow> string" where
  "format_digits ds decpt =
     (if decpt \<le> - 4 \<or> 16 < decpt then
        (if length ds \<le> 1 then ds else take 1 ds @ ''.'' @ drop 1 ds) @ exponent_str (decpt - 1)
      else if decpt \<le> 0 then ''0.'' @ replicate (nat (- decpt)) CHR ''0'' @ ds
      else if int (length ds) \<le> decpt then
        ds @ replicate (nat decpt - length ds) CHR ''0'' @ ''.0''
      else take (nat decpt) ds @ ''.'' @ drop (nat decpt) ds)"

definition repr_pos :: "rat \<Rightarrow> string" where
  "repr_pos q =
     (let (ds, decpt) = decimal_digits (shortest_decimal q (ilog10 q) [1 ..< 18])
      in format_digits ds decpt)"

fun float_repr :: "double \<Rightarrow> string" where
  "float_repr NaN = ''nan''"
| "float_repr PInf = ''inf''"
| "float_repr NInf = ''-inf''"
| "float_repr NegZero = ''-0.0''"
| "float_repr (Fin q) =
     (if q = 0 then ''0.0'' else if q < 0 then CHR ''-'' # repr_pos (- q) else repr_pos q)"

section \<open>\<^verbatim>\<open>str.encode()\<close> and \<^verbatim>\<open>hashlib.sha256(\<dots>).hexdigest()\<close>\<close>

text \<open>A character of a \<open>string\<close> is a code point below 256; UTF-8 writes the code points
  below 128 as one byte and the others as two.\<close>

type_synonym byte = "8 word"

definition utf8_char :: "char \<Rightarrow> byte list" where
  "utf8_char c =
     (let n = (of_char c :: nat)
      in if n < 128 then [of_nat n] else [of_nat (192 + n div 64), of_nat (128 + n mod 64)])"

definition encode :: "string \<Rightarrow> byte list" where
  "encode s = concat (map utf8_char s)"

text \<open>SHA-256 (FIPS 180-4) on 32-bit words.\<close>

type_synonym w32 = "32 word"

definition rotr :: "nat \<Rightarrow> w32 \<Rightarrow> w32" where
  "rotr n x = drop_bit n x OR push_bit (32 - n) x"

definition Ch :: "w32 \<Rightarrow> w32 \<Rightarrow> w32 \<Rightarrow> w32" where
  "Ch x y z = (x AND y) XOR (NOT x AND z)"

definition Maj :: "w32 \<Rightarrow> w32 \<Rightarrow> w32 \<Rightarrow> w32" where
  "Maj x y z = (x AND y) XOR (x AND z) XOR (y AND z)"

definition Sigma0 :: "w32 \<Rightarrow> w32" where
  "Sigma0 x = rotr 2 x XOR rotr 13 x XOR rotr 22 x"

definition Sigma1 :: "w32 \<Rightarrow> w32" where
  "Sigma1 x = rotr 6 x XOR rotr 11 x XOR rotr 25 x"

definition sigma0 :: "w32 \<Rightarrow> w32" where
  "sigma0 x = rotr 7 x XOR rotr 18 x XOR drop_bit 3 x"

definition sigma1 :: "w32 \<Rightarrow> w32" where
  "sigma1 x = rotr 17 x XOR rotr 19 x XOR drop_bit 10 x"

text \<open>The round constants: the first 32 bits of the fractional parts of the cube roots
  of the first 64 primes, written in decimal.\<close>

definition sha256_K :: "w32 list" where
  "sha256_K =
   [1116352408, 1899447441, 3049323471, 3921009573, 961987163, 1508970993,
    2453635748, 2870763221, 3624381080, 310598401, 607225278, 1426881987,
    1925078388, 2162078206, 2614888103, 3248222580, 3835390401, 4022224774,
    264347078, 604807628, 770255983, 1249150122, 1555081692, 1996064986,
    2554220882, 2821834349, 2952996808, 3210313671, 3336571891, 3584528711,
    113926993, 338241895, 666307205, 773529912, 1294757372, 1396182291,
    1695183700, 1986661051, 2177026350, 2456956037, 2730485921, 2820302411,
    3259730800, 3345764771, 3516065817, 3600352804, 4094571909, 275423344,
    430227734, 506948616, 659060556, 883997877, 958139571, 1322822218,
    1537002063, 1747873779, 1955562222, 2024104815, 2227730452, 2361852424,
    2428436474, 2756734187, 3204031479, 3329325298]"

record sha_state =
  h0 :: w32
  h1 :: w32
  h2 :: w32
  h3 :: w32
  h4 :: w32
  h5 :: w32
  h6 :: w32
  h7 :: w32

definition sha256_init :: sha_state where
  "sha256_init =
     \<lparr>h0 = 1779033703, h1 = 3144134277, h2 = 1013904242, h3 = 2773480762,
      h4 = 1359893119, h5 = 2600822924, h6 = 528734635, h7 = 1541459225\<rparr>"

text \<open>The padded message: the byte \<open>0x80\<close>, zeros up to 56 modulo 64, and the
  length in bits as a 64-bit big-endian number.\<close>

definition be_bytes :: "nat \<Rightarrow> nat \<Rightarrow> byte list" where
  "be_bytes k n = map (\<lambda>i. of_nat (n div 256 ^ (k - 1 - i))) [0 ..< k]"

definition pad :: "byte list \<Rightarrow> byte list" where
  "pad m =
     m @ [0x80] @ replicate ((64 - (length m + 9) mod 64) mod 64) 0 @ be_bytes 8 (8 * length m)"

definition be_word :: "byte list \<Rightarrow> w32" where
  "be_word bs = foldl (\<lambda>w b. push_bit 8 w OR ucast b) 0 bs"

fun words_of :: "nat \<Rightarrow> byte list \<Rightarrow> w32 list" where
  "words_of 0 bs = []"
| "words_of (Suc n) bs = be_word (take 4 bs) # words_of n (drop 4 bs)"

text \<open>The message schedule: 16 words of the block, extended to 64.\<close>

fun extend :: "nat \<Rightarrow> w32 list \<Rightarrow> w32 list" where
  "extend 0 w = w"
| "extend (Suc n) w =
     (let t = length w
      in extend n (w @ [sigma1 (w ! (t - 2)) + w ! (t - 7) + sigma0 (w ! (t - 15)) + w ! (t - 16)]))"

definition round_step :: "sha_state \<Rightarrow> w32 \<times> w32 \<Rightarrow> sha_state" where
  "round_step s kw =
     (let t1 = h7 s + Sigma1 (h4 s) + Ch (h4 s) (h5 s) (h6 s) + fst kw + snd kw;
          t2 = Sigma0 (h0 s) + Maj (h0 s) (h1 s) (h2 s)
      in \<lparr>h0 = t1 + t2, h1 = h0 s, h2 = h1 s, h3 = h2 s,
          h4 = h3 s + t1, h5 = h4 s, h6 = h5 s, h7 = h6 s\<rparr>)"

definition compress :: "sha_state \<Rightarrow> byte list \<Rightarrow> sha_state" where
  "compress h block =
     (let w = extend 48 (words_of 16 block);
          s = foldl round_step h (zip sha256_K w)
      in \<lparr>h0 = h0 h + h0 s, h1 = h1 h + h1 s, h2 = h2 h + h2 s, h3 = h3 h + h3 s,
          h4 = h4 h + h4 s, h5 = h5 h + h5 s, h6 = h6 h + h6 s, h7 = h7 h + h7 s\<rparr>)"

fun blocks :: "nat \<Rightarrow> byte list \<Rightarrow> byte list list" where
  "blocks 0 bs = []"
| "blocks (Suc n) bs = take 64 bs # blocks n (drop 64 bs)"

definition sha256 :: "byte list \<Rightarrow> sha_state" where
  "sha256 m = (let p = pad m in foldl compress sha256_init (blocks (length p div 64) p))"

definition hex_char :: "nat \<Rightarrow> char" where
  "hex_char n = ''0123456789abcdef'' ! (n mod 16)"

definition hex32 :: "w32 \<Rightarrow> string" where
  "hex32 w = map (\<lambda>i. hex_char (unat (drop_bit (4 * (7 - i)) w))) [0 ..< 8]"

definition hexdigest :: "sha_state \<Rightarrow> string" where
  "hexdigest s = concat (map hex32 [h0 s, h1 s, h2 s, h3 s, h4 s, h5 s, h6 s, h7 s])"

definition sha256_hexdigest :: "byte list \<Rightarrow> string" where
  "sha256_hexdigest m = hexdigest (sha256 m)"

section \<open>Python values and exceptions\<close>

text \<open>
  The results of the NOVA-BLOCKS calls are untyped Python objects that the verifier
  subscripts and computes with. They are modelled as values of the JSON-like part of
  Python: \<^verbatim>\<open>None\<close>, booleans, integers, floats, strings, lists and dictionaries with
  string keys (an association list, in insertion order).
\<close>

datatype pyval =
    PNone
  | PBool bool
  | PInt int
  | PFloat double
  | PStr string
  | PList "pyval list"
  | PDict "(string \<times> pyval) list"

text \<open>
  An exception is an instance of a subclass of Python's \<^verbatim>\<open>Exception\<close>, with the
  argument it was raised with: \<open>OtherException\<close> stands for the classes the verifier's
  own operations do not raise, which a NOVA-BLOCKS call may. \<open>exn_str\<close> is \<^verbatim>\<open>str(e)\<close>.
\<close>

datatype exn =
    KeyError string
  | TypeError string
  | OverflowError string
  | AttributeError string
  | ZeroDivisionError string
  | OtherException string

fun exn_str :: "exn \<Rightarrow> string" where
  "exn_str (KeyError k) = CHR 0x27 # k @ [CHR 0x27]"
| "exn_str (TypeError m) = m"
| "exn_str (OverflowError m) = m"
| "exn_str (AttributeError m) = m"
| "exn_str (ZeroDivisionError m) = m"
| "exn_str (OtherException m) = m"

fun type_name :: "pyval \<Rightarrow> string" where
  "type_name PNone = ''NoneType''"
| "type_name (PBool b) = ''bool''"
| "type_name (PInt i) = ''int''"
| "type_name (PFloat x) = ''float''"
| "type_name (PStr s) = ''str''"
| "type_name (PList xs) = ''list''"
| "type_name (PDict d) = ''dict''"

definition quoted :: "string \<Rightarrow> string" where
  "quoted s = CHR 0x27 # s @ [CHR 0x27]"

definition unsupported :: "string \<Rightarrow> string \<Rightarrow> string \<Rightarrow> exn" where
  "unsupported opr l r =
     TypeError (''unsupported operand type(s) for '' @ opr @ '': '' @ quoted l @ '' and '' @ quoted r)"

text \<open>Sequencing of computations that may raise.\<close>

definition bind_exn :: "exn + 'a \<Rightarrow> ('a \<Rightarrow> exn + 'b) \<Rightarrow> exn + 'b" where
  "bind_exn r f = (case r of Inl e \<Rightarrow> Inl e | Inr x \<Rightarrow> f x)"

text \<open>\<^verbatim>\<open>v[key]\<close> with a string key.\<close>

fun py_getitem :: "pyval \<Rightarrow> string \<Rightarrow> exn + pyval" where
  "py_getitem (PDict d) key = (case map_of d key of None \<Rightarrow> Inl (KeyError key) | Some v \<Rightarrow> Inr v)"
| "py_getitem (PList xs) key = Inl (TypeError ''list indices must be integers or slices, not str'')"
| "py_getitem (PStr s) key = Inl (TypeError (''string indices must be integers, not '' @ quoted ''str''))"
| "py_getitem v key = Inl (TypeError (quoted (type_name v) @ '' object is not subscriptable''))"

text \<open>
  A number as an operand of float arithmetic: a float is itself, an integer (a boolean
  is one) is converted and may be too large; \<open>None\<close> when the value is not a number.
\<close>

definition int_as_double :: "int \<Rightarrow> exn + double" where
  "int_as_double i =
     (case double_of_int i of
        None \<Rightarrow> Inl (OverflowError ''int too large to convert to float'')
      | Some d \<Rightarrow> Inr d)"

fun as_double :: "pyval \<Rightarrow> (exn + double) option" where
  "as_double (PFloat x) = Some (Inr x)"
| "as_double (PInt i) = Some (int_as_double i)"
| "as_double (PBool b) = Some (Inr (Fin (if b then 1 else 0)))"
| "as_double v = None"

text \<open>\<^verbatim>\<open>v - d\<close>, \<^verbatim>\<open>v * d\<close> and \<^verbatim>\<open>v / d\<close> for a float \<open>d\<close>.\<close>

definition py_sub_float :: "pyval \<Rightarrow> double \<Rightarrow> exn + double" where
  "py_sub_float v d =
     (case as_double v of
        Some r \<Rightarrow> bind_exn r (\<lambda>x. Inr (fsub x d))
      | None \<Rightarrow> Inl (unsupported ''-'' (type_name v) ''float''))"

fun is_sequence :: "pyval \<Rightarrow> bool" where
  "is_sequence (PStr s) = True"
| "is_sequence (PList xs) = True"
| "is_sequence v = False"

definition py_mul_float :: "pyval \<Rightarrow> double \<Rightarrow> exn + double" where
  "py_mul_float v d =
     (case as_double v of
        Some r \<Rightarrow> bind_exn r (\<lambda>x. Inr (fmul x d))
      | None \<Rightarrow>
          if is_sequence v
          then Inl (TypeError (''can't multiply sequence by non-int of type '' @ quoted ''float''))
          else Inl (unsupported ''*'' (type_name v) ''float''))"

definition py_truediv_float :: "pyval \<Rightarrow> double \<Rightarrow> exn + double" where
  "py_truediv_float v d =
     (case as_double v of
        Some r \<Rightarrow>
          bind_exn r (\<lambda>x. if is_finite d \<and> fval d = 0
                         then Inl (ZeroDivisionError ''float division by zero'')
                         else Inr (fdiv x d))
      | None \<Rightarrow> Inl (unsupported ''/'' (type_name v) ''float''))"

text \<open>\<^verbatim>\<open>a + b\<close>: integers add exactly, a float operand makes the sum a float, strings
  and lists concatenate.\<close>

fun as_int :: "pyval \<Rightarrow> int option" where
  "as_int (PInt i) = Some i"
| "as_int (PBool b) = Some (if b then 1 else 0)"
| "as_int v = None"

definition concat_error :: "string \<Rightarrow> pyval \<Rightarrow> exn" where
  "concat_error t b =
     TypeError (''can only concatenate '' @ t @ '' (not '' @ [CHR 0x22] @ type_name b @ [CHR 0x22]
                @ '') to '' @ t)"

definition py_add :: "pyval \<Rightarrow> pyval \<Rightarrow> exn + pyval" where
  "py_add a b =
     (case (as_int a, as_int b) of
        (Some i, Some j) \<Rightarrow> Inr (PInt (i + j))
      | _ \<Rightarrow>
        (case (as_double a, as_double b) of
           (Some x, Some y) \<Rightarrow>
             bind_exn x (\<lambda>x'. bind_exn y (\<lambda>y'. Inr (PFloat (fadd x' y'))))
         | _ \<Rightarrow>
           (case (a, b) of
              (PStr s, PStr t) \<Rightarrow> Inr (PStr (s @ t))
            | (PStr s, _) \<Rightarrow> Inl (concat_error ''str'' b)
            | (PList xs, PList ys) \<Rightarrow> Inr (PList (xs @ ys))
            | (PList xs, _) \<Rightarrow> Inl (concat_error ''list'' b)
            | _ \<Rightarrow> Inl (unsupported ''+'' (type_name a) (type_name b)))))"

section \<open>\<^verbatim>\<open>datetime.utcnow().isoformat()\<close>\<close>

record datetime =
  year :: nat
  month :: nat
  day :: nat
  hour :: nat
  minute :: nat
  second :: nat
  microsecond :: nat

definition zero_pad :: "nat \<Rightarrow> nat \<Rightarrow> string" where
  "zero_pad w n = (let s = str_nonneg (int n) in replicate (w - length s) CHR ''0'' @ s)"

definition isoformat :: "datetime \<Rightarrow> string" where
  "isoformat t =
     zero_pad 4 (year t) @ ''-'' @ zero_pad 2 (month t) @ ''-'' @ zero_pad 2 (day t) @ ''T''
     @ zero_pad 2 (hour t) @ '':'' @ zero_pad 2 (minute t) @ '':'' @ zero_pad 2 (second t)
     @ (if microsecond t = 0 then [] else ''.'' @ zero_pad 6 (microsecond t))"

section \<open>The verifier\<close>

text \<open>
  The NOVA-BLOCKS objects are not part of the repository. An analyzer is modelled by its
  method \<^verbatim>\<open>analyze_material_properties\<close>, a function of the sensor vector that returns
  a Python value or raises; the interface by its methods; the quantum simulator, of which
  only the truth value is used, by a token. A sensor vector (a one-dimensional numpy
  array of floats) is a list of doubles.
\<close>

type_synonym analyzer = "double list \<Rightarrow> exn + pyval"

record interface =
  connect :: "exn + bool"
  quantum_initialize :: "exn + bool"
  quantum_compute :: "pyval \<Rightarrow> exn + pyval"

datatype simulator = Simulator

record nova_blocks =
  AIEmbeddedGoldInterface :: "pyval \<Rightarrow> exn + interface"
  BlackwellQuantumSimulator :: "exn + simulator"
  BlackwellMaterialAnalyzer :: "exn + analyzer"

text \<open>The result dictionary: the ten keys of lines 83 to 94, and the three keys that are
  added later (\<open>None\<close> while the key is absent).\<close>

record verification_result =
  verified :: bool
  confidence :: double
  metal_type :: int
  weight :: double
  purity :: double
  verification_id :: string
  timestamp :: string
  ai_analysis :: pyval
  quantum_verification :: pyval
  blockchain_ready :: bool
  ai_confidence :: "pyval option"
  quantum_confidence :: "pyval option"
  error :: "string option"

record verifier =
  connection_params :: pyval
  interface :: "interface option"
  quantum_simulator :: "simulator option"
  material_analyzer :: "analyzer option"
  verification_history :: "verification_result list"

text \<open>What a call reads from outside: whether numpy was imported, the clock, and the
  numbers that \<^verbatim>\<open>np.random.default_rng().random\<close> draws. (The signature of
  \<^verbatim>\<open>verify_metal_properties\<close> names \<^verbatim>\<open>np.ndarray\<close>, so Python can define the class only
  when numpy was imported; the flag is kept because the method tests it.)\<close>

record env =
  numpy_available :: bool
  utcnow :: datetime
  rng_draw :: "nat \<Rightarrow> double"

definition rng_random :: "env \<Rightarrow> nat \<Rightarrow> double list" where
  "rng_random env n = map (rng_draw env) [0 ..< n]"

subsection \<open>\<^verbatim>\<open>__init__\<close> and \<^verbatim>\<open>_initialize_nova_interface\<close>\<close>

text \<open>
  The three constructors run in order inside one \<^verbatim>\<open>try\<close>; the first that raises leaves
  the later attributes \<^verbatim>\<open>None\<close>. The calls of \<^verbatim>\<open>connect\<close> and \<^verbatim>\<open>quantum_initialize\<close>
  that follow only choose the message printed, and what they raise is caught as well.
\<close>

definition initialize_nova_interface :: "nova_blocks \<Rightarrow> verifier \<Rightarrow> verifier" where
  "initialize_nova_interface nova self =
     (case AIEmbeddedGoldInterface nova (connection_params self) of
        Inl e \<Rightarrow> self
      | Inr i \<Rightarrow>
          let self1 = self\<lparr>interface := Some i\<rparr>
          in (case BlackwellQuantumSimulator nova of
                Inl e \<Rightarrow> self1
              | Inr q \<Rightarrow>
                  let self2 = self1\<lparr>quantum_simulator := Some q\<rparr>
                  in (case BlackwellMaterialAnalyzer nova of
                        Inl e \<Rightarrow> self2
                      | Inr a \<Rightarrow> self2\<lparr>material_analyzer := Some a\<rparr>)))"

text \<open>\<open>nova = None\<close> is \<^verbatim>\<open>NOVA_AVAILABLE = False\<close>: the import failed.\<close>

definition init :: "nova_blocks option \<Rightarrow> pyval \<Rightarrow> verifier" where
  "init nova params =
     (let self = \<lparr>connection_params = params, interface = None, quantum_simulator = None,
                  material_analyzer = None, verification_history = []\<rparr>
      in case nova of Some n \<Rightarrow> initialize_nova_interface n self | None \<Rightarrow> self)"

subsection \<open>\<^verbatim>\<open>verify_metal_properties\<close>\<close>

text \<open>The float literals of the method.\<close>

definition c_19_3 :: double where "c_19_3 = round_double (193 / 10)"
definition c_10_5 :: double where "c_10_5 = round_double (105 / 10)"
definition c_1_0 :: double where "c_1_0 = round_double 1"
definition c_0_05 :: double where "c_0_05 = round_double (5 / 100)"
definition c_3_0 :: double where "c_3_0 = round_double 3"
definition c_0_9 :: double where "c_0_9 = round_double (9 / 10)"
definition c_0_85 :: double where "c_0_85 = round_double (85 / 100)"
definition c_0_5 :: double where "c_0_5 = round_double (5 / 10)"
definition c_0_8 :: double where "c_0_8 = round_double (8 / 10)"
definition ai_weight :: double where "ai_weight = round_double (6 / 10)"
definition quantum_weight :: double where "quantum_weight = round_double (4 / 10)"

definition expected_density :: "int \<Rightarrow> double" where
  "expected_density mtype = (if mtype = 1 then c_19_3 else c_10_5)"

text \<open>Lines 97 to 100: the sensor data the rest of the method works with.\<close>

definition sensor_data_used :: "env \<Rightarrow> double list option \<Rightarrow> double list option" where
  "sensor_data_used env sensor_data =
     (if sensor_data = None \<and> numpy_available env then Some (rng_random env 256)
      else sensor_data)"

text \<open>Lines 113 to 115: the mean of three entries of the analysis, in the order Python
  evaluates the expression.\<close>

definition analysis_confidence :: "pyval \<Rightarrow> exn + double" where
  "analysis_confidence analysis =
     bind_exn (py_getitem analysis ''ai_embedded_efficiency'') (\<lambda>a.
     bind_exn (py_getitem analysis ''thermal_stability'') (\<lambda>b.
     bind_exn (py_add a b) (\<lambda>ab.
     bind_exn (py_getitem analysis ''neural_interface_strength'') (\<lambda>c.
     bind_exn (py_add ab c) (\<lambda>abc.
     py_truediv_float abc c_3_0)))))"

text \<open>Lines 108 to 115, on the analysis the analyzer returned: \<open>density_match\<close>,
  \<open>purity_match\<close> and the AI confidence.\<close>

definition analysis_checks :: "pyval \<Rightarrow> int \<Rightarrow> double \<Rightarrow> exn + bool \<times> bool \<times> double" where
  "analysis_checks analysis mtype pur =
     bind_exn (py_getitem analysis ''density'') (\<lambda>d.
     bind_exn (py_sub_float d (expected_density mtype)) (\<lambda>dd.
     let density_match = flt (fabs dd) c_1_0 in
     bind_exn (py_getitem analysis ''purity'') (\<lambda>p.
     bind_exn (py_sub_float p pur) (\<lambda>pd.
     let purity_match = flt (fabs pd) c_0_05 in
     bind_exn (analysis_confidence analysis) (\<lambda>ai.
     Inr (density_match, purity_match, ai))))))"

text \<open>
  A stage of the \<^verbatim>\<open>try\<close> block takes the result dictionary and returns it as the stage left
  it, with the exception that stopped the stage, if any: what was stored before an
  exception stays stored.
\<close>

type_synonym stage = "verification_result \<Rightarrow> verification_result \<times> exn option"

definition mock_analysis :: "int \<Rightarrow> double \<Rightarrow> pyval" where
  "mock_analysis mtype pur =
     PDict [(''conductivity'', PFloat c_0_9),
            (''density'', PFloat (expected_density mtype)),
            (''purity'', PFloat pur),
            (''ai_embedded_efficiency'', PFloat c_0_85)]"

definition ai_stage :: "verifier \<Rightarrow> int \<Rightarrow> double \<Rightarrow> double list option \<Rightarrow> stage" where
  "ai_stage self mtype pur sensor_data r =
     (case (material_analyzer self, sensor_data) of
        (Some analyze_material_properties, Some sd) \<Rightarrow>
          (case analyze_material_properties sd of
             Inl e \<Rightarrow> (r, Some e)
           | Inr analysis \<Rightarrow>
               let r1 = r\<lparr>ai_analysis := analysis\<rparr>
               in (case analysis_checks analysis mtype pur of
                     Inl e \<Rightarrow> (r1, Some e)
                   | Inr (density_match, purity_match, ai) \<Rightarrow>
                       (r1\<lparr>ai_confidence := Some (PFloat ai)\<rparr>, None)))
      | _ \<Rightarrow>
          (r\<lparr>ai_analysis := mock_analysis mtype pur, ai_confidence := Some (PFloat c_0_85)\<rparr>,
           None))"

definition quantum_input :: "int \<Rightarrow> double \<Rightarrow> double \<Rightarrow> double list option \<Rightarrow> pyval" where
  "quantum_input mtype wgt pur sensor_data =
     PDict [(''state'', PList (case sensor_data of
                                Some sd \<Rightarrow> map PFloat sd
                              | None \<Rightarrow> replicate 1024 (PFloat c_0_5))),
            (''metal_type'', PInt mtype),
            (''weight'', PFloat wgt),
            (''purity'', PFloat pur)]"

definition mock_quantum :: pyval where
  "mock_quantum =
     PDict [(''result'', PDict [(''stability'', PFloat c_0_9),
                               (''entanglement_measure'', PFloat c_0_8)]),
            (''blackwell_accelerated'', PBool False)]"

definition quantum_stage ::
  "verifier \<Rightarrow> int \<Rightarrow> double \<Rightarrow> double \<Rightarrow> double list option \<Rightarrow> stage" where
  "quantum_stage self mtype wgt pur sensor_data r =
     (case quantum_simulator self of
        Some sim \<Rightarrow>
          (case interface self of
             None \<Rightarrow>
               (r, Some (AttributeError (quoted ''NoneType'' @ '' object has no attribute ''
                                         @ quoted ''quantum_compute'')))
           | Some i \<Rightarrow>
               (case quantum_compute i (quantum_input mtype wgt pur sensor_data) of
                  Inl e \<Rightarrow> (r, Some e)
                | Inr quantum_result \<Rightarrow>
                    let r1 = r\<lparr>quantum_verification := quantum_result\<rparr>
                    in (case bind_exn (py_getitem quantum_result ''result'')
                                      (\<lambda>res. py_getitem res ''stability'') of
                          Inl e \<Rightarrow> (r1, Some e)
                        | Inr quantum_stability \<Rightarrow>
                            (r1\<lparr>quantum_confidence := Some quantum_stability\<rparr>, None))))
      | None \<Rightarrow>
          (r\<lparr>quantum_verification := mock_quantum, quantum_confidence := Some (PFloat c_0_9)\<rparr>,
           None))"

text \<open>Reading a key that was added after the dictionary was built.\<close>

definition get_key :: "string \<Rightarrow> pyval option \<Rightarrow> exn + pyval" where
  "get_key key v = (case v of None \<Rightarrow> Inl (KeyError key) | Some x \<Rightarrow> Inr x)"

definition overall_confidence :: "verification_result \<Rightarrow> exn + double" where
  "overall_confidence r =
     bind_exn (get_key ''ai_confidence'' (ai_confidence r)) (\<lambda>a.
     bind_exn (py_mul_float a ai_weight) (\<lambda>x.
     bind_exn (get_key ''quantum_confidence'' (quantum_confidence r)) (\<lambda>q.
     bind_exn (py_mul_float q quantum_weight) (\<lambda>y.
     Inr (fadd x y)))))"

definition data_to_hash :: "int \<Rightarrow> double \<Rightarrow> double \<Rightarrow> string \<Rightarrow> string" where
  "data_to_hash mtype wgt pur ts = str_int mtype @ float_repr wgt @ float_repr pur @ ts"

definition decision_stage :: "int \<Rightarrow> double \<Rightarrow> double \<Rightarrow> stage" where
  "decision_stage mtype wgt pur r =
     (case overall_confidence r of
        Inl e \<Rightarrow> (r, Some e)
      | Inr oc \<Rightarrow>
          let r1 = r\<lparr>confidence := oc, verified := fgt oc c_0_8\<rparr>
          in if verified r1
             then (r1\<lparr>verification_id :=
                          sha256_hexdigest (encode (data_to_hash mtype wgt pur (timestamp r1))),
                        blockchain_ready := True\<rparr>, None)
             else (r1, None))"

definition then_stage :: "stage \<Rightarrow> stage \<Rightarrow> stage" where
  "then_stage f g r = (case f r of (r1, Some e) \<Rightarrow> (r1, Some e) | (r1, None) \<Rightarrow> g r1)"

text \<open>The \<^verbatim>\<open>try\<close> block, lines 97 to 174. Its last statement appends the result to the
  history, which the constructor made a list.\<close>

definition try_block ::
  "env \<Rightarrow> verifier \<Rightarrow> int \<Rightarrow> double \<Rightarrow> double \<Rightarrow> double list option \<Rightarrow> verification_result
   \<Rightarrow> (verification_result \<times> verifier) \<times> exn option" where
  "try_block env self mtype wgt pur sensor_data r =
     (let sd = sensor_data_used env sensor_data
      in case then_stage (ai_stage self mtype pur sd)
                (then_stage (quantum_stage self mtype wgt pur sd)
                            (decision_stage mtype wgt pur)) r of
           (r1, Some e) \<Rightarrow> ((r1, self), Some e)
         | (r1, None) \<Rightarrow>
             ((r1, self\<lparr>verification_history := verification_history self @ [r1]\<rparr>), None))"

definition initial_result :: "env \<Rightarrow> int \<Rightarrow> double \<Rightarrow> double \<Rightarrow> verification_result" where
  "initial_result env mtype wgt pur =
     \<lparr>verified = False, confidence = Fin 0, metal_type = mtype, weight = wgt, purity = pur,
      verification_id = [], timestamp = isoformat (utcnow env), ai_analysis = PDict [],
      quantum_verification = PDict [], blockchain_ready = False,
      ai_confidence = None, quantum_confidence = None, error = None\<rparr>"

text \<open>The method returns the result dictionary; the second component is the verifier
  after the call. The handler of line 176 catches every \<^verbatim>\<open>Exception\<close>.\<close>

definition verify_metal_properties ::
  "env \<Rightarrow> verifier \<Rightarrow> int \<Rightarrow> double \<Rightarrow> double \<Rightarrow> double list option
   \<Rightarrow> verification_result \<times> verifier" where
  "verify_metal_properties env self mtype wgt pur sensor_data =
     (case try_block env self mtype wgt pur sensor_data (initial_result env mtype wgt pur) of
        ((r, self1), None) \<Rightarrow> (r, self1)
      | ((r, self1), Some e) \<Rightarrow> (r\<lparr>error := Some (exn_str e)\<rparr>, self1))"

definition get_verification_history :: "verifier \<Rightarrow> verification_result list" where
  "get_verification_history self = verification_history self"

text \<open>
  \<^verbatim>\<open>save_verification_log\<close> and \<^verbatim>\<open>load_verification_log\<close> hand the history to
  \<^verbatim>\<open>json.dump\<close> and \<^verbatim>\<open>json.load\<close> on a file; the JSON text and the file system are
  not part of this development.
\<close>

section \<open>Notions used in the properties\<close>

text \<open>The exception, if any, that stops the \<^verbatim>\<open>try\<close> block of a call: \<open>None\<close> is a call
  that completes without an exception.\<close>

definition body_exception ::
  "env \<Rightarrow> verifier \<Rightarrow> int \<Rightarrow> double \<Rightarrow> double \<Rightarrow> double list option \<Rightarrow> exn option" where
  "body_exception env self mtype wgt pur sensor_data =
     snd (try_block env self mtype wgt pur sensor_data (initial_result env mtype wgt pur))"

text \<open>The result of a \<^verbatim>\<open>try\<close> block that ran to its end, from the result \<open>r2\<close> that the two
  analysis stages left and the overall confidence \<open>oc\<close>.\<close>

definition decided :: "int \<Rightarrow> double \<Rightarrow> double \<Rightarrow> verification_result \<Rightarrow> double \<Rightarrow> verification_result" where
  "decided mtype wgt pur r2 oc =
     (if fgt oc c_0_8
      then r2\<lparr>confidence := oc, verified := True,
              verification_id :=
                sha256_hexdigest (encode (data_to_hash mtype wgt pur (timestamp r2))),
              blockchain_ready := True\<rparr>
      else r2\<lparr>confidence := oc, verified := False\<rparr>)"

text \<open>An entry of an analysis that is present and is a number that float arithmetic
  accepts (a float, or an integer within the range of a double); and two analyses with
  the same three entries that enter the AI confidence.\<close>

definition numeric_field :: "pyval \<Rightarrow> string \<Rightarrow> bool" where
  "numeric_field analysis key =
     (case py_getitem analysis key of
        Inl e \<Rightarrow> False
      | Inr v \<Rightarrow> (case as_double v of Some (Inr x) \<Rightarrow> True | _ \<Rightarrow> False))"

definition same_confidence_fields :: "pyval \<Rightarrow> pyval \<Rightarrow> bool" where
  "same_confidence_fields a1 a2 \<longleftrightarrow>
     py_getitem a1 ''ai_embedded_efficiency'' = py_getitem a2 ''ai_embedded_efficiency''
   \<and> py_getitem a1 ''thermal_stability'' = py_getitem a2 ''thermal_stability''
   \<and> py_getitem a1 ''neural_interface_strength'' = py_getitem a2 ''neural_interface_strength''"

subsection \<open>Example inputs\<close>

text \<open>The call of the script's own example (gold, 100 grams, purity 0.999) on a verifier
  built without NOVA-BLOCKS, and a verifier built with a NOVA-BLOCKS whose analyzer
  reports a given density.\<close>

definition c_0_999 :: double where "c_0_999 = round_double (999 / 1000)"

definition example_env :: env where
  "example_env =
     \<lparr>numpy_available = True,
      utcnow = \<lparr>year = 2024, month = 1, day = 1, hour = 12, minute = 0, second = 0,
                microsecond = 123456\<rparr>,
      rng_draw = (\<lambda>i. c_0_5)\<rparr>"

definition example_params :: pyval where
  "example_params =
     PDict [(''port'', PStr ''COM3''), (''baudrate'', PInt 115200), (''quantum_enabled'', PBool True)]"

definition mock_verifier :: verifier where
  "mock_verifier = init None example_params"

definition example_analysis :: "pyval \<Rightarrow> pyval" where
  "example_analysis density =
     PDict [(''density'', density),
            (''purity'', PFloat c_0_999),
            (''ai_embedded_efficiency'', PFloat c_0_9),
            (''thermal_stability'', PFloat c_0_9),
            (''neural_interface_strength'', PFloat c_0_9)]"

definition example_nova :: "pyval \<Rightarrow> nova_blocks" where
  "example_nova density =
     \<lparr>AIEmbeddedGoldInterface =
        (\<lambda>params. Inr \<lparr>connect = Inr True, quantum_initialize = Inr True,
                        quantum_compute = (\<lambda>inp. Inr mock_quantum)\<rparr>),
      BlackwellQuantumSimulator = Inr Simulator,
      BlackwellMaterialAnalyzer = Inr (\<lambda>sd. Inr (example_analysis density))\<rparr>"

definition nova_verifier :: "pyval \<Rightarrow> verifier" where
  "nova_verifier density = init (Some (example_nova density)) example_params"

definition example_result :: verification_result where
  "example_result = fst (verify_metal_properties example_env mock_verifier 1 (Fin 100) c_0_999 None)"

definition failing_result :: verification_result where
  "failing_result =
     fst (verify_metal_properties example_env (nova_verifier PNone) 1 (Fin 100) c_0_999 (Some [c_0_5]))"

section \<open>Evaluating the float literals\<close>

lemma floor_rat_numeral_div: "\<lfloor>(numeral a :: rat) / numeral b\<rfloor> = numeral a div numeral b"
  using floor_divide_of_int_eq [of "numeral a" "numeral b", where ?'a = rat] by simp

lemma ceiling_rat_numeral_div:
  "\<lceil>(numeral a :: rat) / numeral b\<rceil> = - ((- numeral a) div numeral b)"
  using ceiling_divide_eq_div [of "numeral a" "numeral b"] by simp

lemmas round_eval =
  round_double_def round_pos_def ilog2_def pow2_def round_half_even_def bitlen.simps Let_def
  floor_rat_numeral_div ceiling_rat_numeral_div

lemma ai_weight_eq: "ai_weight = Fin (5404319552844595 / 9007199254740992)"
  by (simp add: ai_weight_def round_eval)

lemma quantum_weight_eq: "quantum_weight = Fin (3602879701896397 / 9007199254740992)"
  by (simp add: quantum_weight_def round_eval)

lemma c_0_8_eq: "c_0_8 = Fin (3602879701896397 / 4503599627370496)"
  by (simp add: c_0_8_def round_eval)

lemma c_0_85_eq: "c_0_85 = Fin (7656119366529843 / 9007199254740992)"
  by (simp add: c_0_85_def round_eval)

lemma c_0_9_eq: "c_0_9 = Fin (8106479329266893 / 9007199254740992)"
  by (simp add: c_0_9_def round_eval)

lemma c_0_999_eq: "c_0_999 = Fin (8998192055486251 / 9007199254740992)"
  by (simp add: c_0_999_def round_eval)

lemma c_19_3_eq: "c_19_3 = Fin (5432467050515661 / 281474976710656)"
  by (simp add: c_19_3_def round_eval)

lemma c_10_5_eq: "c_10_5 = Fin (21 / 2)"
  by (simp add: c_10_5_def round_eval)

lemma c_1_0_eq: "c_1_0 = Fin 1"
  by (simp add: c_1_0_def round_eval)

lemma c_3_0_eq: "c_3_0 = Fin 3"
  by (simp add: c_3_0_def round_eval)

lemma c_0_05_eq: "c_0_05 = Fin (3602879701896397 / 72057594037927936)"
  by (simp add: c_0_05_def round_eval)


lemma mock_confidence_eq:
  "fadd (fmul c_0_85 ai_weight) (fmul c_0_9 quantum_weight) = Fin (979532918953083 / 1125899906842624)"
  by (simp add: c_0_85_eq c_0_9_eq ai_weight_eq quantum_weight_eq fadd_def fmul_def round_eval)

lemma fmul_commute: "fmul x y = fmul y x"
proof -
  have sgn: "(is_neg x \<noteq> is_neg y) = (is_neg y \<noteq> is_neg x)"
    by blast
  show ?thesis
    unfolding fmul_def sgn by (simp add: mult.commute disj_commute)
qed

section \<open>The stages of the \<^verbatim>\<open>try\<close> block\<close>

lemma ai_stage_cases:
  assumes "ai_stage self mtype pur sd r = (r', x)"
  shows "(x = None \<and> (\<exists>an c. r' = r\<lparr>ai_analysis := an, ai_confidence := Some (PFloat c)\<rparr>))
       \<or> (x \<noteq> None \<and> (r' = r \<or> (\<exists>an. r' = r\<lparr>ai_analysis := an\<rparr>)))"
  using assms unfolding ai_stage_def
  by (auto split: option.splits sum.splits prod.splits simp: Let_def)

lemma quantum_stage_cases:
  assumes "quantum_stage self mtype wgt pur sd r = (r', x)"
  shows "(x = None \<and> (\<exists>qv q. r' = r\<lparr>quantum_verification := qv, quantum_confidence := Some q\<rparr>))
       \<or> (x \<noteq> None \<and> (r' = r \<or> (\<exists>qv. r' = r\<lparr>quantum_verification := qv\<rparr>)))"
  using assms unfolding quantum_stage_def
  by (auto split: option.splits sum.splits prod.splits simp: Let_def)

lemma decision_stage_cases:
  assumes "decision_stage mtype wgt pur r = (r', x)"
  shows "(x = None \<and> (\<exists>oc. overall_confidence r = Inr oc \<and>
            r' = (if fgt oc c_0_8
                  then r\<lparr>confidence := oc, verified := True,
                         verification_id := sha256_hexdigest (encode (data_to_hash mtype wgt pur (timestamp r))),
                         blockchain_ready := True\<rparr>
                  else r\<lparr>confidence := oc, verified := False\<rparr>)))
       \<or> (x \<noteq> None \<and> r' = r)"
  using assms unfolding decision_stage_def
  by (auto split: option.splits sum.splits prod.splits if_splits simp: Let_def)

lemma py_mul_float_Inr:
  assumes "py_mul_float v d = Inr y"
  shows "\<exists>x. as_double v = Some (Inr x) \<and> y = fmul x d"
  using assms unfolding py_mul_float_def bind_exn_def
  by (auto split: option.splits sum.splits if_splits)

lemma overall_confidence_Inr:
  assumes "overall_confidence r = Inr oc"
  shows "\<exists>a q x y. ai_confidence r = Some a \<and> quantum_confidence r = Some q
           \<and> as_double a = Some (Inr x) \<and> as_double q = Some (Inr y)
           \<and> oc = fadd (fmul x ai_weight) (fmul y quantum_weight)"
proof -
  from assms obtain a x q y where
    a: "ai_confidence r = Some a" and x: "py_mul_float a ai_weight = Inr x" and
    q: "quantum_confidence r = Some q" and y: "py_mul_float q quantum_weight = Inr y" and
    oc: "oc = fadd x y"
    unfolding overall_confidence_def bind_exn_def get_key_def
    by (auto split: option.splits sum.splits)
  from py_mul_float_Inr [OF x] py_mul_float_Inr [OF y] a q oc show ?thesis
    by auto
qed

lemma try_block_completes:
  assumes "try_block env self mtype wgt pur sensor_data r = ((r', self'), None)"
  shows "\<exists>an c qv q oc.
           overall_confidence (r\<lparr>ai_analysis := an, ai_confidence := Some (PFloat c),
                                 quantum_verification := qv, quantum_confidence := Some q\<rparr>) = Inr oc
         \<and> r' = decided mtype wgt pur
                  (r\<lparr>ai_analysis := an, ai_confidence := Some (PFloat c),
                     quantum_verification := qv, quantum_confidence := Some q\<rparr>) oc
         \<and> self' = self\<lparr>verification_history := verification_history self @ [r']\<rparr>"
proof -
  let ?sd = "sensor_data_used env sensor_data"
  obtain r1 x1 where a: "ai_stage self mtype pur ?sd r = (r1, x1)"
    by fastforce
  obtain r2 x2 where q: "quantum_stage self mtype wgt pur ?sd r1 = (r2, x2)"
    by fastforce
  obtain r3 x3 where d: "decision_stage mtype wgt pur r2 = (r3, x3)"
    by fastforce
  from assms a q d have none: "x1 = None" "x2 = None" "x3 = None"
    and res: "r' = r3" "self' = self\<lparr>verification_history := verification_history self @ [r3]\<rparr>"
    by (auto simp: try_block_def then_stage_def Let_def split: option.splits prod.splits)
  from ai_stage_cases [OF a] none obtain an c where
    r1: "r1 = r\<lparr>ai_analysis := an, ai_confidence := Some (PFloat c)\<rparr>"
    by auto
  from quantum_stage_cases [OF q] none obtain qv qc where
    r2: "r2 = r1\<lparr>quantum_verification := qv, quantum_confidence := Some qc\<rparr>"
    by auto
  from decision_stage_cases [OF d] none obtain oc where
    oc: "overall_confidence r2 = Inr oc" and r3: "r3 = decided mtype wgt pur r2 oc"
    unfolding decided_def by auto
  have "r2 = r\<lparr>ai_analysis := an, ai_confidence := Some (PFloat c),
               quantum_verification := qv, quantum_confidence := Some qc\<rparr>"
    by (simp add: r1 r2)
  with oc r3 res show ?thesis
    by blast
qed

lemma try_block_raises:
  assumes "try_block env self mtype wgt pur sensor_data r = ((r', self'), Some e)"
  shows "self' = self \<and> verified r' = verified r \<and> confidence r' = confidence r
       \<and> metal_type r' = metal_type r \<and> weight r' = weight r \<and> purity r' = purity r
       \<and> verification_id r' = verification_id r \<and> timestamp r' = timestamp r
       \<and> blockchain_ready r' = blockchain_ready r \<and> error r' = error r"
proof -
  let ?sd = "sensor_data_used env sensor_data"
  obtain r1 x1 where a: "ai_stage self mtype pur ?sd r = (r1, x1)"
    by fastforce
  obtain r2 x2 where q: "quantum_stage self mtype wgt pur ?sd r1 = (r2, x2)"
    by fastforce
  obtain r3 x3 where d: "decision_stage mtype wgt pur r2 = (r3, x3)"
    by fastforce
  from assms a q d have self: "self' = self"
    and res: "(x1 \<noteq> None \<and> r' = r1) \<or> (x1 = None \<and> x2 \<noteq> None \<and> r' = r2)
              \<or> (x1 = None \<and> x2 = None \<and> x3 \<noteq> None \<and> r' = r3)"
    by (auto simp: try_block_def then_stage_def Let_def split: option.splits prod.splits)
  from res ai_stage_cases [OF a] quantum_stage_cases [OF q] decision_stage_cases [OF d] self
  show ?thesis
    by (elim disjE conjE exE) auto
qed

lemma verify_completes:
  assumes "verify_metal_properties env self mtype wgt pur sensor_data = (r, self')"
    and "body_exception env self mtype wgt pur sensor_data = None"
  shows "\<exists>an c qv q oc.
           overall_confidence ((initial_result env mtype wgt pur)
                \<lparr>ai_analysis := an, ai_confidence := Some (PFloat c),
                 quantum_verification := qv, quantum_confidence := Some q\<rparr>) = Inr oc
         \<and> r = decided mtype wgt pur
                  ((initial_result env mtype wgt pur)
                     \<lparr>ai_analysis := an, ai_confidence := Some (PFloat c),
                      quantum_verification := qv, quantum_confidence := Some q\<rparr>) oc
         \<and> self' = self\<lparr>verification_history := verification_history self @ [r]\<rparr>"
proof -
  let ?r0 = "initial_result env mtype wgt pur"
  obtain r1 s1 where tb: "try_block env self mtype wgt pur sensor_data ?r0 = ((r1, s1), None)"
    using assms(2) unfolding body_exception_def
    by (metis prod.collapse)
  with assms(1) have "r = r1" "self' = s1"
    by (simp_all add: verify_metal_properties_def)
  with try_block_completes [OF tb] show ?thesis
    by simp
qed

lemma verify_raises:
  assumes "verify_metal_properties env self mtype wgt pur sensor_data = (r, self')"
    and "body_exception env self mtype wgt pur sensor_data = Some e"
  shows "error r = Some (exn_str e) \<and> self' = self \<and> \<not> verified r \<and> confidence r = Fin 0
       \<and> metal_type r = mtype \<and> weight r = wgt \<and> purity r = pur \<and> verification_id r = []
       \<and> timestamp r = isoformat (utcnow env) \<and> \<not> blockchain_ready r"
proof -
  let ?r0 = "initial_result env mtype wgt pur"
  obtain r1 s1 where tb: "try_block env self mtype wgt pur sensor_data ?r0 = ((r1, s1), Some e)"
    using assms(2) unfolding body_exception_def
    by (metis prod.collapse)
  with assms(1) have "r = r1\<lparr>error := Some (exn_str e)\<rparr>" "self' = s1"
    by (simp_all add: verify_metal_properties_def)
  with try_block_raises [OF tb] show ?thesis
    by (simp add: initial_result_def)
qed

lemma decided_fields:
  "confidence (decided mtype wgt pur r2 oc) = oc"
  "verified (decided mtype wgt pur r2 oc) = fgt oc c_0_8"
  "blockchain_ready (decided mtype wgt pur r2 oc) = (if fgt oc c_0_8 then True else blockchain_ready r2)"
  "verification_id (decided mtype wgt pur r2 oc) =
     (if fgt oc c_0_8 then sha256_hexdigest (encode (data_to_hash mtype wgt pur (timestamp r2)))
      else verification_id r2)"
  "metal_type (decided mtype wgt pur r2 oc) = metal_type r2"
  "weight (decided mtype wgt pur r2 oc) = weight r2"
  "purity (decided mtype wgt pur r2 oc) = purity r2"
  "timestamp (decided mtype wgt pur r2 oc) = timestamp r2"
  "ai_confidence (decided mtype wgt pur r2 oc) = ai_confidence r2"
  "quantum_confidence (decided mtype wgt pur r2 oc) = quantum_confidence r2"
  "error (decided mtype wgt pur r2 oc) = error r2"
  by (simp_all add: decided_def)

lemma sha256_hexdigest_length: "length (sha256_hexdigest m) = 64"
  by (simp add: sha256_hexdigest_def hexdigest_def hex32_def)

text \<open>The \<open>error\<close> entry of a returned result is the text of the exception that stopped the
  \<^verbatim>\<open>try\<close> block, and is absent when the block ran to its end.\<close>

lemma error_is_exception_text:
  "error (fst (verify_metal_properties env self mtype wgt pur sensor_data)) =
     map_option exn_str (body_exception env self mtype wgt pur sensor_data)"
proof (cases "body_exception env self mtype wgt pur sensor_data")
  case None
  from verify_completes [OF prod.collapse [symmetric] None] show ?thesis
    using None by (auto simp: decided_fields initial_result_def)
next
  case (Some e)
  from verify_raises [OF prod.collapse [symmetric] Some] show ?thesis
    using Some by simp
qed

text \<open>The comparison with the threshold is strict: a confidence of exactly \<open>0.8\<close> is not
  above it.\<close>

lemma fgt_Fin: "fgt (Fin a) (Fin b) \<longleftrightarrow> b < a"
  by (simp add: fgt_def)

lemma threshold_is_strict: "\<not> fgt c_0_8 c_0_8"
  by (simp add: c_0_8_eq fgt_def)

section \<open>The verifier without NOVA-BLOCKS\<close>

lemma mock_try_block:
  assumes "material_analyzer self = None" and "quantum_simulator self = None"
  shows "\<exists>r'. try_block env self mtype wgt pur sensor_data r =
           ((r', self\<lparr>verification_history := verification_history self @ [r']\<rparr>), None)
         \<and> r' = decided mtype wgt pur
                  (r\<lparr>ai_analysis := mock_analysis mtype pur, ai_confidence := Some (PFloat c_0_85),
                     quantum_verification := mock_quantum,
                     quantum_confidence := Some (PFloat c_0_9)\<rparr>)
                  (Fin (979532918953083 / 1125899906842624))"
proof -
  let ?sd = "sensor_data_used env sensor_data"
  let ?r1 = "r\<lparr>ai_analysis := mock_analysis mtype pur, ai_confidence := Some (PFloat c_0_85)\<rparr>"
  let ?r2 = "?r1\<lparr>quantum_verification := mock_quantum, quantum_confidence := Some (PFloat c_0_9)\<rparr>"
  have a: "ai_stage self mtype pur ?sd r = (?r1, None)"
    using assms(1) by (simp add: ai_stage_def)
  have q: "quantum_stage self mtype wgt pur ?sd ?r1 = (?r2, None)"
    using assms(2) by (simp add: quantum_stage_def)
  have oc: "overall_confidence ?r2 = Inr (Fin (979532918953083 / 1125899906842624))"
    by (simp add: overall_confidence_def get_key_def bind_exn_def py_mul_float_def
        mock_confidence_eq)
  have d: "decision_stage mtype wgt pur ?r2 =
             (decided mtype wgt pur ?r2 (Fin (979532918953083 / 1125899906842624)), None)"
    by (simp add: decision_stage_def oc decided_def Let_def)
  show ?thesis
    by (simp add: try_block_def then_stage_def a q d Let_def)
qed

lemma mock_body_exception:
  assumes "material_analyzer self = None" and "quantum_simulator self = None"
  shows "body_exception env self mtype wgt pur sensor_data = None"
  using mock_try_block [OF assms, of env mtype wgt pur sensor_data "initial_result env mtype wgt pur"]
  by (auto simp: body_exception_def)


lemma mock_verifier_fields:
  "material_analyzer mock_verifier = None" "quantum_simulator mock_verifier = None"
  "verification_history mock_verifier = []"
  by (simp_all add: mock_verifier_def init_def)

lemma example_verify:
  "verify_metal_properties example_env mock_verifier 1 (Fin 100) c_0_999 None =
     (example_result, snd (verify_metal_properties example_env mock_verifier 1 (Fin 100) c_0_999 None))"
  by (simp add: example_result_def)

lemma example_completes:
  "body_exception example_env mock_verifier 1 (Fin 100) c_0_999 None = None"
  by (rule mock_body_exception [OF mock_verifier_fields(1,2)])

section \<open>Runs of the example analyzer\<close>

lemmas verifier_eval =
  nova_verifier_def init_def initialize_nova_interface_def example_nova_def example_analysis_def
  example_env_def sensor_data_used_def
  try_block_def then_stage_def ai_stage_def quantum_stage_def decision_stage_def
  analysis_checks_def analysis_confidence_def overall_confidence_def get_key_def bind_exn_def
  py_sub_float_def py_mul_float_def py_truediv_float_def py_add_def expected_density_def
  mock_quantum_def initial_result_def unsupported_def quoted_def int_as_double_def

lemmas float_eval =
  fadd_def fsub_def fmul_def fdiv_def fgt_def signed_zero_def signed_inf_def
  ai_weight_eq quantum_weight_eq c_0_8_eq c_0_85_eq c_0_9_eq c_0_999_eq c_19_3_eq c_10_5_eq
  c_1_0_eq c_3_0_eq c_0_05_eq round_eval

lemma none_density_raises:
  "body_exception example_env (nova_verifier PNone) 1 (Fin 100) c_0_999 (Some [c_0_5]) =
     Some (unsupported ''-'' ''NoneType'' ''float'')"
  by (simp add: body_exception_def verifier_eval)

lemma float_density_verified:
  "body_exception example_env (nova_verifier (PFloat c_19_3)) 1 (Fin 100) c_0_999 (Some [c_0_5]) = None
   \<and> verified (fst (verify_metal_properties example_env (nova_verifier (PFloat c_19_3)) 1 (Fin 100) c_0_999 (Some [c_0_5])))"
  by (simp add: body_exception_def verify_metal_properties_def verifier_eval float_eval)

lemma none_density_not_verified:
  "\<not> verified (fst (verify_metal_properties example_env (nova_verifier PNone) 1 (Fin 100) c_0_999 (Some [c_0_5])))"
  by (simp add: verify_metal_properties_def verifier_eval)

lemma failing_verify:
  "verify_metal_properties example_env (nova_verifier PNone) 1 (Fin 100) c_0_999 (Some [c_0_5]) =
     (failing_result,
      snd (verify_metal_properties example_env (nova_verifier PNone) 1 (Fin 100) c_0_999 (Some [c_0_5])))"
  by (simp add: failing_result_def)

lemma nova_verifier_fields:
  "material_analyzer (nova_verifier d) = Some (\<lambda>sd. Inr (example_analysis d))"
  "interface (nova_verifier d) = interface (nova_verifier d')"
  "quantum_simulator (nova_verifier d) = Some Simulator"
  by (simp_all add: nova_verifier_def init_def initialize_nova_interface_def example_nova_def)

lemma example_numeric:
  "numeric_field (example_analysis (PFloat x)) ''density''"
  "numeric_field (example_analysis d) ''purity''"
  by (simp_all add: numeric_field_def example_analysis_def)

section \<open>The later stages do not read the analysis\<close>

lemma analysis_checks_numeric:
  assumes "numeric_field a ''density''" and "numeric_field a ''purity''"
  shows "\<exists>dm pm. analysis_checks a mtype pur =
           bind_exn (analysis_confidence a) (\<lambda>ai. Inr (dm, pm, ai))"
  using assms unfolding numeric_field_def analysis_checks_def py_sub_float_def
  by (auto simp: bind_exn_def Let_def split: sum.splits option.splits)

lemma analysis_confidence_cong:
  "same_confidence_fields a1 a2 \<Longrightarrow> analysis_confidence a1 = analysis_confidence a2"
  by (simp add: same_confidence_fields_def analysis_confidence_def)

lemma quantum_stage_ignores_analysis:
  assumes "interface self2 = interface self1" and "quantum_simulator self2 = quantum_simulator self1"
  shows "quantum_stage self2 mtype wgt pur sd (r\<lparr>ai_analysis := an\<rparr>) =
           (case quantum_stage self1 mtype wgt pur sd r of (r', x) \<Rightarrow> (r'\<lparr>ai_analysis := an\<rparr>, x))"
  using assms unfolding quantum_stage_def
  by (auto simp: Let_def split: option.splits sum.splits)

lemma decision_stage_ignores_analysis:
  "decision_stage mtype wgt pur (r\<lparr>ai_analysis := an\<rparr>) =
     (case decision_stage mtype wgt pur r of (r', x) \<Rightarrow> (r'\<lparr>ai_analysis := an\<rparr>, x))"
  unfolding decision_stage_def overall_confidence_def
  by (auto simp: Let_def split: sum.splits)

lemma later_stages_ignore_analysis:
  assumes "interface self2 = interface self1" and "quantum_simulator self2 = quantum_simulator self1"
  shows "then_stage (quantum_stage self2 mtype wgt pur sd) (decision_stage mtype wgt pur)
           (r\<lparr>ai_analysis := an\<rparr>) =
         (case then_stage (quantum_stage self1 mtype wgt pur sd) (decision_stage mtype wgt pur) r of
            (r', x) \<Rightarrow> (r'\<lparr>ai_analysis := an\<rparr>, x))"
  unfolding then_stage_def quantum_stage_ignores_analysis [OF assms]
  by (auto simp: decision_stage_ignores_analysis split: prod.splits option.splits)

section \<open>The claims\<close>

text \<open>
  Claim C1. When a call of \<^verbatim>\<open>verify_metal_properties\<close> completes without an exception, the
  \<open>confidence\<close> of the result is \<open>0.6 * ai_confidence + 0.4 * quantum_confidence\<close> in float
  arithmetic, on the values of the result's \<open>ai_confidence\<close> and \<open>quantum_confidence\<close>
  entries as floats.
\<close>

theorem confidence_is_weighted_combination:
  assumes "verify_metal_properties env self mtype wgt pur sensor_data = (r, self')"
    and "body_exception env self mtype wgt pur sensor_data = None"
  shows "\<exists>a q x y. ai_confidence r = Some a \<and> quantum_confidence r = Some q
           \<and> as_double a = Some (Inr x) \<and> as_double q = Some (Inr y)
           \<and> confidence r = fadd (fmul ai_weight x) (fmul quantum_weight y)"
proof -
  from verify_completes [OF assms] obtain r2 oc where
    oc: "overall_confidence r2 = Inr oc" and r: "r = decided mtype wgt pur r2 oc"
    by blast
  from overall_confidence_Inr [OF oc] obtain a q x y where
    "ai_confidence r2 = Some a" "quantum_confidence r2 = Some q"
    "as_double a = Some (Inr x)" "as_double q = Some (Inr y)"
    "oc = fadd (fmul x ai_weight) (fmul y quantum_weight)"
    by blast
  then show ?thesis
    by (simp add: r decided_fields fmul_commute)
qed

theorem confidence_is_weighted_combination_witness:
  "body_exception example_env mock_verifier 1 (Fin 100) c_0_999 None = None
   \<and> (\<exists>a q x y. ai_confidence example_result = Some a \<and> quantum_confidence example_result = Some q
          \<and> as_double a = Some (Inr x) \<and> as_double q = Some (Inr y)
          \<and> confidence example_result = fadd (fmul ai_weight x) (fmul quantum_weight y))"
  using confidence_is_weighted_combination [OF example_verify example_completes] example_completes
  by simp

text \<open>
  Claim C2. When a call completes without an exception, \<open>verified\<close> is true exactly when
  the overall confidence is strictly greater than the float \<open>0.8\<close>.
\<close>

theorem verified_iff_above_threshold:
  assumes "verify_metal_properties env self mtype wgt pur sensor_data = (r, self')"
    and "body_exception env self mtype wgt pur sensor_data = None"
  shows "verified r \<longleftrightarrow> fgt (confidence r) c_0_8"
proof -
  from verify_completes [OF assms] obtain r2 oc where "r = decided mtype wgt pur r2 oc"
    by blast
  then show ?thesis
    by (simp add: decided_fields)
qed

theorem verified_iff_above_threshold_witness:
  "body_exception example_env mock_verifier 1 (Fin 100) c_0_999 None = None
   \<and> (verified example_result \<longleftrightarrow> fgt (confidence example_result) c_0_8)"
  using verified_iff_above_threshold [OF example_verify example_completes] example_completes
  by simp








text \<open>
  Claim C6 says that two runs whose analyses differ only in \<open>density\<close> and \<open>purity\<close> have
  the same \<open>verified\<close> outcome. The two entries are read, at lines 109 and 111: with a
  density that is not a number the subtraction raises and the result stays unverified,
  while the same analysis with the density \<open>19.3\<close> is verified.
\<close>

theorem density_changes_verified:
  "same_confidence_fields (example_analysis PNone) (example_analysis (PFloat c_19_3))
   \<and> \<not> verified (fst (verify_metal_properties example_env (nova_verifier PNone) 1 (Fin 100) c_0_999 (Some [c_0_5])))
   \<and> verified (fst (verify_metal_properties example_env (nova_verifier (PFloat c_19_3)) 1 (Fin 100) c_0_999 (Some [c_0_5])))"
  using none_density_not_verified float_density_verified
  by (simp add: same_confidence_fields_def example_analysis_def)

text \<open>
  Claim C6, amended. For two runs on the same sensor data, with the same interface and
  quantum simulator, whose analyses agree on \<open>ai_embedded_efficiency\<close>,
  \<open>thermal_stability\<close> and \<open>neural_interface_strength\<close> and in both of which \<open>density\<close>
  and \<open>purity\<close> are numbers (so that lines 109 and 111 raise nothing), \<open>verified\<close> and the
  overall confidence are the same: \<open>density_match\<close> and \<open>purity_match\<close> are not read.
\<close>

theorem verified_independent_of_density_and_purity:
  assumes "material_analyzer self1 = Some f1" and "material_analyzer self2 = Some f2"
    and "interface self2 = interface self1"
    and "quantum_simulator self2 = quantum_simulator self1"
    and "sensor_data_used env sensor_data = Some sd"
    and "f1 sd = Inr a1" and "f2 sd = Inr a2"
    and "same_confidence_fields a1 a2"
    and "numeric_field a1 ''density''" and "numeric_field a1 ''purity''"
    and "numeric_field a2 ''density''" and "numeric_field a2 ''purity''"
  shows "verified (fst (verify_metal_properties env self1 mtype wgt pur sensor_data)) =
         verified (fst (verify_metal_properties env self2 mtype wgt pur sensor_data))
       \<and> confidence (fst (verify_metal_properties env self1 mtype wgt pur sensor_data)) =
         confidence (fst (verify_metal_properties env self2 mtype wgt pur sensor_data))"
proof -
  let ?r0 = "initial_result env mtype wgt pur"
  let ?rest = "\<lambda>self. then_stage (quantum_stage self mtype wgt pur (Some sd))
                                  (decision_stage mtype wgt pur)"
  from analysis_checks_numeric [OF assms(9,10)] obtain dm1 pm1 where
    c1: "analysis_checks a1 mtype pur = bind_exn (analysis_confidence a1) (\<lambda>ai. Inr (dm1, pm1, ai))"
    by blast
  from analysis_checks_numeric [OF assms(11,12)] obtain dm2 pm2 where
    c2: "analysis_checks a2 mtype pur = bind_exn (analysis_confidence a2) (\<lambda>ai. Inr (dm2, pm2, ai))"
    by blast
  have same: "analysis_confidence a2 = analysis_confidence a1"
    using analysis_confidence_cong [OF assms(8)] by simp
  have swap: "?rest self2 (r\<lparr>ai_analysis := a2\<rparr>) =
              (case ?rest self1 r of (r', x) \<Rightarrow> (r'\<lparr>ai_analysis := a2\<rparr>, x))" for r
    by (rule later_stages_ignore_analysis [OF assms(3,4)])
  show ?thesis
  proof (cases "analysis_confidence a1")
    case (Inl e)
    then show ?thesis
      using assms(1,2,5,6,7) c1 c2 same
      by (simp add: verify_metal_properties_def try_block_def then_stage_def ai_stage_def
          bind_exn_def Let_def)
  next
    case (Inr ai)
    let ?r1 = "?r0\<lparr>ai_confidence := Some (PFloat ai)\<rparr>"
    have s1: "ai_stage self1 mtype pur (Some sd) ?r0 = (?r1\<lparr>ai_analysis := a1\<rparr>, None)"
      using assms(1,6) c1 Inr by (simp add: ai_stage_def bind_exn_def Let_def)
    have s2: "ai_stage self2 mtype pur (Some sd) ?r0 = (?r1\<lparr>ai_analysis := a2\<rparr>, None)"
      using assms(2,7) c2 same Inr by (simp add: ai_stage_def bind_exn_def Let_def)
    obtain r' x where rest: "?rest self1 (?r1\<lparr>ai_analysis := a1\<rparr>) = (r', x)"
      by fastforce
    have "?rest self2 (?r1\<lparr>ai_analysis := a1\<rparr>\<lparr>ai_analysis := a2\<rparr>) = (r'\<lparr>ai_analysis := a2\<rparr>, x)"
      unfolding swap rest by simp
    then have rest2: "?rest self2 (?r1\<lparr>ai_analysis := a2\<rparr>) = (r'\<lparr>ai_analysis := a2\<rparr>, x)"
      by simp
    show ?thesis
      using s1 s2 rest rest2 assms(5)
      by (cases x) (simp_all add: verify_metal_properties_def try_block_def then_stage_def Let_def)
  qed
qed

theorem verified_independent_of_density_and_purity_witness:
  "same_confidence_fields (example_analysis (PFloat c_19_3)) (example_analysis (PFloat c_10_5))
   \<and> numeric_field (example_analysis (PFloat c_19_3)) ''density''
   \<and> numeric_field (example_analysis (PFloat c_10_5)) ''density''
   \<and> verified (fst (verify_metal_properties example_env (nova_verifier (PFloat c_19_3)) 1 (Fin 100) c_0_999 (Some [c_0_5])))
     = verified (fst (verify_metal_properties example_env (nova_verifier (PFloat c_10_5)) 1 (Fin 100) c_0_999 (Some [c_0_5])))"
proof -
  let ?a1 = "example_analysis (PFloat c_19_3)" and ?a2 = "example_analysis (PFloat c_10_5)"
  let ?f1 = "\<lambda>sd :: double list. (Inr ?a1 :: exn + pyval)"
  let ?f2 = "\<lambda>sd :: double list. (Inr ?a2 :: exn + pyval)"
  have same: "same_confidence_fields ?a1 ?a2"
    by (simp add: same_confidence_fields_def example_analysis_def)
  have sd: "sensor_data_used example_env (Some [c_0_5]) = Some [c_0_5]"
    by (simp add: sensor_data_used_def)
  have q: "quantum_simulator (nova_verifier (PFloat c_10_5)) = quantum_simulator (nova_verifier (PFloat c_19_3))"
    by (simp add: nova_verifier_fields(3))
  have "verified (fst (verify_metal_properties example_env (nova_verifier (PFloat c_19_3)) 1 (Fin 100) c_0_999 (Some [c_0_5])))
     = verified (fst (verify_metal_properties example_env (nova_verifier (PFloat c_10_5)) 1 (Fin 100) c_0_999 (Some [c_0_5])))"
    using verified_independent_of_density_and_purity
      [where ?self1.0 = "nova_verifier (PFloat c_19_3)" and ?self2.0 = "nova_verifier (PFloat c_10_5)"
         and ?f1.0 = ?f1 and ?f2.0 = ?f2 and ?a1.0 = ?a1 and ?a2.0 = ?a2
         and env = example_env and sensor_data = "Some [c_0_5]" and sd = "[c_0_5]"
         and mtype = 1 and wgt = "Fin 100" and pur = c_0_999,
       OF nova_verifier_fields(1) nova_verifier_fields(1) nova_verifier_fields(2) q sd refl refl same
          example_numeric(1) example_numeric(2) example_numeric(1) example_numeric(2)]
    by simp
  with same show ?thesis
    by (simp add: example_numeric)
qed

text \<open>
  Claim C7. A call that completes without an exception appends exactly one entry, the
  result it returns, to \<open>verification_history\<close>; a call whose exception is caught leaves
  the history as it was and returns a result with an \<open>error\<close>;
  \<^verbatim>\<open>get_verification_history\<close> returns the history.
\<close>

theorem history_appended_on_completion:
  assumes "verify_metal_properties env self mtype wgt pur sensor_data = (r, self')"
  shows "(body_exception env self mtype wgt pur sensor_data = None \<longrightarrow>
            verification_history self' = verification_history self @ [r])
       \<and> (body_exception env self mtype wgt pur sensor_data \<noteq> None \<longrightarrow>
            verification_history self' = verification_history self \<and> error r \<noteq> None)
       \<and> get_verification_history self' = verification_history self'"
proof (cases "body_exception env self mtype wgt pur sensor_data")
  case None
  from verify_completes [OF assms None] show ?thesis
    using None by (auto simp: get_verification_history_def)
next
  case (Some e)
  from verify_raises [OF assms Some] show ?thesis
    using Some by (simp add: get_verification_history_def)
qed

theorem history_appended_on_completion_witness:
  "body_exception example_env mock_verifier 1 (Fin 100) c_0_999 None = None
   \<and> get_verification_history
        (snd (verify_metal_properties example_env mock_verifier 1 (Fin 100) c_0_999 None))
      = [example_result]
   \<and> body_exception example_env (nova_verifier PNone) 1 (Fin 100) c_0_999 (Some [c_0_5]) \<noteq> None
   \<and> get_verification_history
        (snd (verify_metal_properties example_env (nova_verifier PNone) 1 (Fin 100) c_0_999 (Some [c_0_5])))
      = []"
proof -
  have "verification_history (nova_verifier PNone) = []"
    by (simp add: nova_verifier_def init_def initialize_nova_interface_def example_nova_def)
  with history_appended_on_completion [OF example_verify]
       history_appended_on_completion [OF failing_verify]
  show ?thesis
    by (simp add: example_completes none_density_raises mock_verifier_fields)
qed

text \<open>
  Claim C9. With numpy available, a call without sensor data works on a generated vector
  of 256 elements: it is the call with that vector as its sensor data. Sensor data that
  is provided is used as it is, whatever the generator would draw.
\<close>

theorem sensor_data_generated_when_missing:
  "(numpy_available env \<longrightarrow>
      sensor_data_used env None = Some (rng_random env 256)
    \<and> length (rng_random env 256) = 256
    \<and> verify_metal_properties env self mtype wgt pur None =
        verify_metal_properties env self mtype wgt pur (Some (rng_random env 256)))
   \<and> sensor_data_used env (Some sd) = Some sd
   \<and> verify_metal_properties env self mtype wgt pur (Some sd) =
       verify_metal_properties (env\<lparr>numpy_available := b, rng_draw := g\<rparr>) self mtype wgt pur (Some sd)"
  by (simp add: sensor_data_used_def rng_random_def verify_metal_properties_def try_block_def
      initial_result_def)

theorem sensor_data_generated_when_missing_witness:
  "numpy_available example_env
   \<and> sensor_data_used example_env None = Some (replicate 256 c_0_5)
   \<and> verify_metal_properties example_env mock_verifier 1 (Fin 100) c_0_999 None =
       verify_metal_properties example_env mock_verifier 1 (Fin 100) c_0_999 (Some (replicate 256 c_0_5))"
proof -
  have "rng_random example_env 256 = replicate 256 c_0_5"
    by (simp add: rng_random_def example_env_def map_replicate_const)
  with sensor_data_generated_when_missing [of example_env mock_verifier 1 "Fin 100" c_0_999]
  show ?thesis
    by (simp add: example_env_def)
qed

text \<open>
  Claim C10. The \<open>metal_type\<close>, \<open>weight\<close> and \<open>purity\<close> of a result are the arguments of
  the call; when the call completes without an exception, \<open>blockchain_ready\<close> equals
  \<open>verified\<close>, and \<open>verification_id\<close> is non-empty exactly when \<open>verified\<close> is true.
\<close>

theorem result_fields_consistent:
  assumes "verify_metal_properties env self mtype wgt pur sensor_data = (r, self')"
  shows "metal_type r = mtype \<and> weight r = wgt \<and> purity r = pur
       \<and> (body_exception env self mtype wgt pur sensor_data = None \<longrightarrow>
            blockchain_ready r = verified r \<and> (verification_id r \<noteq> [] \<longleftrightarrow> verified r))"
proof (cases "body_exception env self mtype wgt pur sensor_data")
  case None
  from verify_completes [OF assms None] obtain r2 oc where
    r: "r = decided mtype wgt pur r2 oc" and
    r2: "metal_type r2 = mtype" "weight r2 = wgt" "purity r2 = pur"
        "verification_id r2 = []" "\<not> blockchain_ready r2"
    by (auto simp: initial_result_def)
  have "sha256_hexdigest m \<noteq> []" for m
    using sha256_hexdigest_length [of m] by auto
  with r r2 show ?thesis
    by (simp add: decided_fields)
next
  case (Some e)
  from verify_raises [OF assms Some] show ?thesis
    using Some by simp
qed

theorem result_fields_consistent_witness:
  "body_exception example_env mock_verifier 1 (Fin 100) c_0_999 None = None
   \<and> metal_type example_result = 1 \<and> weight example_result = Fin 100
   \<and> purity example_result = c_0_999
   \<and> blockchain_ready example_result = verified example_result
   \<and> (verification_id example_result \<noteq> [] \<longleftrightarrow> verified example_result)"
  using result_fields_consistent [OF example_verify] example_completes
  by simp

end
